theory Spec2Isabelle
  imports Main "HOL-Library.Sublist"
begin

section \<open>Strings\<close>

text \<open>
  Python strings are modelled as \<open>string\<close>, one \<open>char\<close> per code point below 256.
  \<open>str.strip()\<close> without argument removes leading and trailing characters for which
  \<open>str.isspace\<close> holds; below 256 these are 0x09-0x0D, 0x1C-0x20, 0x85 and 0xA0.
\<close>

definition isspace :: "char \<Rightarrow> bool" where
  "isspace c = (let n = of_char c :: nat in
     (9 \<le> n \<and> n \<le> 13) \<or> (28 \<le> n \<and> n \<le> 32) \<or> n = 133 \<or> n = 160)"

definition strip :: "string \<Rightarrow> string" where
  "strip s = rev (dropWhile isspace (rev (dropWhile isspace s)))"

text \<open>\<open>str(i)\<close> for a non-negative integer: its decimal digits.\<close>

definition digit_char :: "nat \<Rightarrow> char" where
  "digit_char d = ''0123456789'' ! d"

function str_nat :: "nat \<Rightarrow> string" where
  "str_nat n = (if n < 10 then [digit_char n] else str_nat (n div 10) @ [digit_char (n mod 10)])"
  by pat_completeness auto
termination
  by (relation "measure (\<lambda>n. n)") auto

declare str_nat.simps [simp del]

section \<open>Exceptions\<close>

text \<open>
  An exception raised by the document store is a value carrying its message
  (\<open>str(e)\<close>). What a request handler raises is either an \<open>HTTPException\<close> with status
  code and detail, or a pydantic \<open>ValidationError\<close> listing the offending fields.
\<close>

datatype exn = Exception string

fun str_exn :: "exn \<Rightarrow> string" where
  "str_exn (Exception m) = m"

datatype failure = HTTPException nat string | ValidationError "string list"

section \<open>schemas.py: VideoJob\<close>

text \<open>
  The fields of \<open>VideoJob\<close>. \<open>format\<close> and \<open>status\<close> are strings constrained by a
  \<open>Literal\<close>, \<open>progress\<close> an integer constrained by \<open>ge=0, le=100\<close>; the constraints
  are checked when an instance is constructed. \<open>meta\<close> maps strings to arbitrary
  values, taken here as strings.
\<close>

record VideoJob =
  topic :: string
  trigger_phrase :: string
  voice :: string
  style :: string
  format :: string
  status :: string
  step :: "string option"
  progress :: int
  script :: "string option"
  voiceover_url :: "string option"
  broll_urls :: "string list option"
  final_url :: "string option"
  logs :: "string list option"
  meta :: "(string \<times> string) list option"

definition format_literals :: "string list" where
  "format_literals = [''1080p'', ''9:16'', ''16:9'', ''square'']"

definition status_literals :: "string list" where
  "status_literals = [''queued'', ''running'', ''completed'', ''failed'']"

text \<open>
  The field defaults of the class: what a keyword left out of the constructor call
  takes. \<open>topic\<close> is required and has none.
\<close>

definition VideoJob_defaults :: "string \<Rightarrow> VideoJob" where
  "VideoJob_defaults t = \<lparr>
     topic = t,
     trigger_phrase = ''Create a full video automatically.'',
     voice = ''alloy'',
     style = ''engaging'',
     format = ''16:9'',
     status = ''queued'',
     step = None,
     progress = 0,
     script = None,
     voiceover_url = None,
     broll_urls = None,
     final_url = None,
     logs = None,
     meta = None \<rparr>"

text \<open>
  Construction of a \<open>VideoJob\<close> from field values of the right Python type: pydantic
  checks every constrained field and raises one \<open>ValidationError\<close> naming all failing
  fields, in declaration order; otherwise the instance holds the values given.
\<close>

definition VideoJob_errors :: "VideoJob \<Rightarrow> string list" where
  "VideoJob_errors j =
     (if format j \<in> set format_literals then [] else [''format'']) @
     (if status j \<in> set status_literals then [] else [''status'']) @
     (if 0 \<le> progress j \<and> progress j \<le> 100 then [] else [''progress''])"

definition VideoJob_init :: "VideoJob \<Rightarrow> failure + VideoJob" where
  "VideoJob_init j = (if VideoJob_errors j = [] then Inr j else Inl (ValidationError (VideoJob_errors j)))"

section \<open>main.py: action stubs\<close>

record GenerateVoicePayload =
  gv_script :: string
  gv_voice :: string

record GenerateBrollPayload =
  scene_prompts :: "string list"

record AutoEditPayload =
  ae_voiceover_url :: string
  ae_broll_urls :: "string list"
  ae_style :: string
  ae_format :: string

text \<open>
  Each stub returns a dictionary with a single key; the model returns the value under
  that key (\<open>voiceover_url\<close>, \<open>broll_urls\<close>, \<open>final_url\<close>).
\<close>

definition action_generate_voice :: "GenerateVoicePayload \<Rightarrow> string" where
  "action_generate_voice payload = ''https://example.com/voiceover.mp3''"

definition action_generate_broll :: "GenerateBrollPayload \<Rightarrow> string list" where
  "action_generate_broll payload =
     map (\<lambda>(i, _). ''https://example.com/broll_'' @ str_nat i @ ''.mp4'')
       (enumerate 1 (scene_prompts payload))"

definition action_auto_edit :: "AutoEditPayload \<Rightarrow> string" where
  "action_auto_edit payload = ''https://example.com/final_video.mp4''"

section \<open>main.py: the pipeline runner\<close>

record RunRequest =
  req_trigger_phrase :: string
  req_topic :: "string option"
  req_voice :: string
  req_style :: string
  req_format :: string

definition RunRequest_defaults :: RunRequest where
  "RunRequest_defaults = \<lparr>
     req_trigger_phrase = ''Create a full video automatically.'',
     req_topic = None,
     req_voice = ''male_tech_voice'',
     req_style = ''tech_fastpaced'',
     req_format = ''1080p'' \<rparr>"

record Trend =
  trend_topic :: string
  why :: string
  viral_score :: int
  angle :: string

record PipelineResult =
  job_id :: "string option"
  trend :: Trend
  res_script :: string
  res_voiceover_url :: string
  res_broll_urls :: "string list"
  res_final_url :: string

text \<open>
  The calls a handler makes to the action stubs and to the document store are recorded,
  in order, beside its response; an insert is recorded with its outcome.
\<close>

datatype event =
    GenerateVoiceCalled GenerateVoicePayload
  | GenerateBrollCalled GenerateBrollPayload
  | AutoEditCalled AutoEditPayload
  | CreateDocumentCalled string VideoJob "exn + string"

text \<open>
  \<open>x or d\<close> for an optional string \<open>x\<close>: \<open>None\<close> and the empty string are falsy.
\<close>

definition py_or :: "string option \<Rightarrow> string \<Rightarrow> string" where
  "py_or x d = (case x of None \<Rightarrow> d | Some t \<Rightarrow> if t = [] then d else t)"

definition default_topic :: string where
  "default_topic = ''Why AI copilots are changing software in 2025''"

definition make_script :: "string \<Rightarrow> string" where
  "make_script t =
     ''Title: '' @ t @ [CHR 0x0A, CHR 0x0A] @
     ''Intro: In this video, we explore how AI copilots...'' @ [CHR 0x0A] @
     ''...'' @ [CHR 0x0A] @ ''Conclusion: Subscribe for more!''"

definition scenes :: "string list" where
  "scenes = [
     ''Developer coding with AI suggestions on screen'',
     ''Graph showing productivity improvements'',
     ''Security team reviewing AI-generated code'']"

text \<open>
  \<open>run_pipeline\<close> takes the store's \<open>create_document\<close> as a parameter: a function
  of the collection name, the record and the store's state that either raises or returns
  the new identifier, with the store's next state. \<open>req.topic or default\<close> yields the
  default for \<open>None\<close> and for the empty string. The \<open>VideoJob\<close> is constructed
  outside the \<open>try\<close> block, so its \<open>ValidationError\<close> leaves the handler; any
  exception of the insert is caught and turns \<open>job_id\<close> into \<open>None\<close>.
\<close>

definition run_pipeline ::
  "(string \<Rightarrow> VideoJob \<Rightarrow> 's \<Rightarrow> (exn + string) \<times> 's) \<Rightarrow> RunRequest \<Rightarrow> 's
     \<Rightarrow> (failure + PipelineResult) \<times> event list \<times> 's" where
  "run_pipeline create_document req s =
     (if strip (req_trigger_phrase req) \<noteq> ''Create a full video automatically.''
      then (Inl (HTTPException 400 ''Invalid trigger phrase''), [], s)
      else
        let topic' = py_or (req_topic req) default_topic;
            trend' = \<lparr> trend_topic = topic',
                       why = ''Mass adoption in IDEs and office suites'',
                       viral_score = 87,
                       angle = ''Pros & cons with real examples'' \<rparr>;
            script' = make_script topic';
            voice_payload = \<lparr> gv_script = script', gv_voice = req_voice req \<rparr>;
            voice_res = action_generate_voice voice_payload;
            broll_payload = \<lparr> scene_prompts = scenes \<rparr>;
            broll_res = action_generate_broll broll_payload;
            edit_payload = \<lparr> ae_voiceover_url = voice_res, ae_broll_urls = broll_res,
                             ae_style = req_style req, ae_format = req_format req \<rparr>;
            edit_res = action_auto_edit edit_payload;
            called = [GenerateVoiceCalled voice_payload, GenerateBrollCalled broll_payload,
                      AutoEditCalled edit_payload]
        in case VideoJob_init ((VideoJob_defaults topic') \<lparr>
                  voice := req_voice req,
                  style := req_style req,
                  format := req_format req,
                  status := ''completed'',
                  step := Some ''Final MP4 Output'',
                  progress := 100,
                  script := Some script',
                  voiceover_url := Some voice_res,
                  broll_urls := Some broll_res,
                  final_url := Some edit_res,
                  logs := Some [''Pipeline executed (mock)''] \<rparr>) of
             Inl err \<Rightarrow> (Inl err, called, s)
           | Inr job \<Rightarrow>
               (case create_document ''videojob'' job s of
                  (outcome, s') \<Rightarrow>
                    (Inr \<lparr> job_id = (case outcome of Inl e \<Rightarrow> None | Inr i \<Rightarrow> Some i),
                           trend = trend',
                           res_script = script',
                           res_voiceover_url = voice_res,
                           res_broll_urls = broll_res,
                           res_final_url = edit_res \<rparr>,
                     called @ [CreateDocumentCalled ''videojob'' job outcome],
                     s')))"

section \<open>main.py: job endpoints\<close>

record JobCreated =
  created_id :: string
  created_status :: string

text \<open>
  \<open>create_job\<close> receives a constructed \<open>VideoJob\<close>; an exception of the insert is
  re-raised as \<open>HTTPException(500, str(e))\<close>.
\<close>

definition create_job ::
  "(string \<Rightarrow> VideoJob \<Rightarrow> 's \<Rightarrow> (exn + string) \<times> 's) \<Rightarrow> VideoJob \<Rightarrow> 's
     \<Rightarrow> (failure + JobCreated) \<times> 's" where
  "create_job create_document job s =
     (case create_document ''videojob'' job s of
        (Inr i, s') \<Rightarrow> (Inr \<lparr> created_id = i, created_status = status job \<rparr>, s')
      | (Inl e, s') \<Rightarrow> (Inl (HTTPException 500 (str_exn e)), s'))"

text \<open>
  A document read from the store is a dictionary; its keys are \<open>_id\<close> (the store's
  own identifier, an object whose \<open>str\<close> is the identifier's text), \<open>id\<close>, and the
  fields of the job. A key that may be absent is an \<open>option\<close>.
\<close>

datatype ObjectId = ObjectId string

fun str_oid :: "ObjectId \<Rightarrow> string" where
  "str_oid (ObjectId x) = x"

record document =
  doc_uid :: "ObjectId option"
  doc_id :: "string option"
  doc_fields :: VideoJob

text \<open>The loop body of \<open>list_jobs\<close>: \<open>if "_id" in d: d["id"] = str(d.pop("_id"))\<close>.\<close>

definition remap_id :: "document \<Rightarrow> document" where
  "remap_id d = (case doc_uid d of
                   None \<Rightarrow> d
                 | Some u \<Rightarrow> d \<lparr> doc_uid := None, doc_id := Some (str_oid u) \<rparr>)"

definition list_jobs ::
  "(string \<Rightarrow> int \<Rightarrow> 's \<Rightarrow> (exn + document list) \<times> 's) \<Rightarrow> int \<Rightarrow> 's
     \<Rightarrow> (failure + document list) \<times> 's" where
  "list_jobs get_documents limit s =
     (case get_documents ''videojob'' limit s of
        (Inr docs, s') \<Rightarrow> (Inr (map remap_id docs), s')
      | (Inl e, s') \<Rightarrow> (Inl (HTTPException 500 (str_exn e)), s'))"

section \<open>The record store\<close>

text \<open>
  The state of the document store: whether a connection exists, whether the underlying
  write and read succeed, the counter that identifiers are drawn from, and the stored
  records, each with its collection and identifier, in insertion order.
\<close>

record store =
  connected :: bool
  write_ok :: bool
  read_ok :: bool
  next_oid :: nat
  stored :: "(string \<times> string \<times> VideoJob) list"

text \<open>
  Modelled from the spec: \<open>create_document\<close> of the repository's \<open>database\<close> module,
  which is not among the sources. It is the spec's
  \<open>insert(kind, record) -> id\<close>: it stores the record's fields under the collection
  \<open>kind\<close> and returns the newly assigned identifier, an opaque string (here the decimal
  text of a counter); it fails with \<open>StoreUnavailable\<close> if no store connection exists
  and with \<open>StoreWriteError\<close> on underlying write failure, and a failed insert stores
  nothing.
\<close>

definition create_document :: "string \<Rightarrow> VideoJob \<Rightarrow> store \<Rightarrow> (exn + string) \<times> store" where
  "create_document kind rec s =
     (if \<not> connected s then (Inl (Exception ''StoreUnavailable''), s)
      else if \<not> write_ok s then (Inl (Exception ''StoreWriteError''), s)
      else (Inr (str_nat (next_oid s)),
            s \<lparr> next_oid := Suc (next_oid s),
                stored := stored s @ [(kind, str_nat (next_oid s), rec)] \<rparr>))"

text \<open>
  Modelled from the spec: \<open>get_documents\<close> of the same missing module, the spec's
  \<open>list(kind, limit) -> sequence<record>\<close>: it returns up to \<open>limit\<close> records of the
  collection, in the store's order, each carrying its store-assigned identifier under the
  store's internal key; it fails with \<open>StoreUnavailable\<close> or \<open>StoreReadError\<close>. The spec
  speaks of a non-negative \<open>limit\<close> only; a negative one is taken as zero here.
\<close>

definition get_documents :: "string \<Rightarrow> int \<Rightarrow> store \<Rightarrow> (exn + document list) \<times> store" where
  "get_documents kind limit s =
     (if \<not> connected s then (Inl (Exception ''StoreUnavailable''), s)
      else if \<not> read_ok s then (Inl (Exception ''StoreReadError''), s)
      else (Inr (take (nat limit)
                  (map (\<lambda>(k, i, j). \<lparr> doc_uid = Some (ObjectId i), doc_id = None, doc_fields = j \<rparr>)
                     (filter (\<lambda>(k, i, j). k = kind) (stored s)))),
            s))"

definition empty_store :: store where
  "empty_store = \<lparr> connected = True, write_ok = True, read_ok = True, next_oid = 0, stored = [] \<rparr>"

section \<open>Names for the parts of a pipeline run\<close>

text \<open>
  The proofs below name three terms of \<open>run_pipeline\<close>: the keyword arguments of its
  \<open>VideoJob(...)\<close> call laid over the class defaults, the three stub calls it makes
  in order, and the dictionary it returns for a given \<open>job_id\<close>. Lemma
  \<open>run_pipeline_unfold\<close> shows that \<open>run_pipeline\<close> computes with exactly these.
\<close>

definition pipeline_job :: "RunRequest \<Rightarrow> VideoJob" where
  "pipeline_job req = (VideoJob_defaults (py_or (req_topic req) default_topic)) \<lparr>
       voice := req_voice req,
       style := req_style req,
       format := req_format req,
       status := ''completed'',
       step := Some ''Final MP4 Output'',
       progress := 100,
       script := Some (make_script (py_or (req_topic req) default_topic)),
       voiceover_url := Some ''https://example.com/voiceover.mp3'',
       broll_urls := Some [''https://example.com/broll_1.mp4'', ''https://example.com/broll_2.mp4'',
                           ''https://example.com/broll_3.mp4''],
       final_url := Some ''https://example.com/final_video.mp4'',
       logs := Some [''Pipeline executed (mock)''] \<rparr>"

definition pipeline_calls :: "RunRequest \<Rightarrow> event list" where
  "pipeline_calls req =
     [GenerateVoiceCalled \<lparr> gv_script = make_script (py_or (req_topic req) default_topic),
                            gv_voice = req_voice req \<rparr>,
      GenerateBrollCalled \<lparr> scene_prompts = scenes \<rparr>,
      AutoEditCalled \<lparr> ae_voiceover_url = ''https://example.com/voiceover.mp3'',
                       ae_broll_urls = [''https://example.com/broll_1.mp4'',
                                        ''https://example.com/broll_2.mp4'',
                                        ''https://example.com/broll_3.mp4''],
                       ae_style = req_style req, ae_format = req_format req \<rparr>]"

definition pipeline_result :: "RunRequest \<Rightarrow> string option \<Rightarrow> PipelineResult" where
  "pipeline_result req jid =
     \<lparr> job_id = jid,
       trend = \<lparr> trend_topic = py_or (req_topic req) default_topic,
                 why = ''Mass adoption in IDEs and office suites'',
                 viral_score = 87,
                 angle = ''Pros & cons with real examples'' \<rparr>,
       res_script = make_script (py_or (req_topic req) default_topic),
       res_voiceover_url = ''https://example.com/voiceover.mp3'',
       res_broll_urls = [''https://example.com/broll_1.mp4'', ''https://example.com/broll_2.mp4'',
                         ''https://example.com/broll_3.mp4''],
       res_final_url = ''https://example.com/final_video.mp4'' \<rparr>"

section \<open>Decimal text of identifiers and indices\<close>

lemma digit_char_inj: "a < 10 \<Longrightarrow> b < 10 \<Longrightarrow> digit_char a = digit_char b \<Longrightarrow> a = b"
  unfolding digit_char_def
  by (subst (asm) nth_eq_iff_index_eq) simp_all

lemma str_nat_nonempty: "str_nat n \<noteq> []"
  by (subst str_nat.simps) simp

lemma str_nat_inj: "str_nat m = str_nat n \<Longrightarrow> m = n"
proof (induction m arbitrary: n rule: str_nat.induct)
  case (1 m)
  show ?case
  proof (cases "m < 10")
    case True
    then have sm: "str_nat m = [digit_char m]" by (subst str_nat.simps) simp
    show ?thesis
    proof (cases "n < 10")
      case True
      then have "str_nat n = [digit_char n]" by (subst str_nat.simps) simp
      with sm "1.prems" have "digit_char m = digit_char n" by simp
      with \<open>m < 10\<close> \<open>n < 10\<close> show ?thesis by (rule digit_char_inj)
    next
      case False
      then have "str_nat n = str_nat (n div 10) @ [digit_char (n mod 10)]"
        by (subst str_nat.simps) simp
      with sm "1.prems" have "str_nat (n div 10) = []" by simp
      with str_nat_nonempty show ?thesis by blast
    qed
  next
    case False
    then have sm: "str_nat m = str_nat (m div 10) @ [digit_char (m mod 10)]"
      by (subst str_nat.simps) simp
    show ?thesis
    proof (cases "n < 10")
      case True
      then have "str_nat n = [digit_char n]" by (subst str_nat.simps) simp
      with sm "1.prems" have "str_nat (m div 10) = []" by simp
      with str_nat_nonempty show ?thesis by blast
    next
      case nf: False
      then have "str_nat n = str_nat (n div 10) @ [digit_char (n mod 10)]"
        by (subst str_nat.simps) simp
      with sm "1.prems" have a: "str_nat (m div 10) = str_nat (n div 10)"
        and b: "digit_char (m mod 10) = digit_char (n mod 10)" by simp_all
      from "1.IH" [OF False a] have "m div 10 = n div 10" .
      moreover from b have "m mod 10 = n mod 10" by (intro digit_char_inj) simp_all
      ultimately show ?thesis by (metis div_mult_mod_eq)
    qed
  qed
qed

section \<open>The b-roll stub\<close>

lemma broll_scenes:
  "action_generate_broll \<lparr>scene_prompts = scenes\<rparr> =
     [''https://example.com/broll_1.mp4'', ''https://example.com/broll_2.mp4'',
      ''https://example.com/broll_3.mp4'']"
  by (simp add: action_generate_broll_def scenes_def str_nat.simps digit_char_def)

text \<open>
  C3. For every list of scene prompts the b-roll stub returns a list of the same length,
  and the URL at position \<open>k\<close> (counting from 0) is the one named with the index
  \<open>k + 1\<close>: the names are numbered from 1 in the order of the prompts.
\<close>

theorem generate_broll_length_index:
  "length (action_generate_broll \<lparr>scene_prompts = ps\<rparr>) = length ps \<and>
   (\<forall>k < length ps. action_generate_broll \<lparr>scene_prompts = ps\<rparr> ! k
        = ''https://example.com/broll_'' @ str_nat (k + 1) @ ''.mp4'')"
  by (simp add: action_generate_broll_def nth_enumerate_eq)

theorem generate_broll_length_index_witness:
  "length (action_generate_broll \<lparr>scene_prompts = [''sky'', ''sea'']\<rparr>) = 2 \<and>
   action_generate_broll \<lparr>scene_prompts = [''sky'', ''sea'']\<rparr> ! 1 = ''https://example.com/broll_2.mp4''"
proof -
  have k: "(1::nat) < length [''sky'', ''sea'']" by simp
  have d: "str_nat (1 + 1) = ''2''" by (simp add: str_nat.simps digit_char_def)
  from generate_broll_length_index [of "[''sky'', ''sea'']"] k d show ?thesis
    by simp
qed

section \<open>The pipeline runner\<close>

lemma strip_canonical:
  "strip ''Create a full video automatically.'' = ''Create a full video automatically.''"
  by (simp add: strip_def isspace_def)

lemma run_pipeline_bad_trigger:
  "strip (req_trigger_phrase req) \<noteq> ''Create a full video automatically.'' \<Longrightarrow>
   run_pipeline cd req s = (Inl (HTTPException 400 ''Invalid trigger phrase''), [], s)"
  by (simp add: run_pipeline_def)

lemma pipeline_job_errors:
  "VideoJob_errors (pipeline_job req) =
     (if req_format req \<in> set format_literals then [] else [''format''])"
  by (simp add: VideoJob_errors_def pipeline_job_def status_literals_def)

lemma run_pipeline_unfold:
  "strip (req_trigger_phrase req) = ''Create a full video automatically.'' \<Longrightarrow>
   run_pipeline cd req s =
     (case VideoJob_init (pipeline_job req) of
        Inl err \<Rightarrow> (Inl err, pipeline_calls req, s)
      | Inr job \<Rightarrow>
          (Inr (pipeline_result req (case fst (cd ''videojob'' job s) of Inl e \<Rightarrow> None | Inr i \<Rightarrow> Some i)),
           pipeline_calls req @ [CreateDocumentCalled ''videojob'' job (fst (cd ''videojob'' job s))],
           snd (cd ''videojob'' job s)))"
  by (simp add: run_pipeline_def Let_def pipeline_job_def pipeline_calls_def pipeline_result_def
        action_generate_voice_def action_auto_edit_def broll_scenes split: prod.splits sum.splits)

lemma run_pipeline_bad_format:
  assumes "strip (req_trigger_phrase req) = ''Create a full video automatically.''"
      and "req_format req \<notin> set format_literals"
  shows "run_pipeline cd req s = (Inl (ValidationError [''format'']), pipeline_calls req, s)"
  using assms by (simp add: run_pipeline_unfold VideoJob_init_def pipeline_job_errors)

lemma run_pipeline_valid:
  assumes "strip (req_trigger_phrase req) = ''Create a full video automatically.''"
      and "req_format req \<in> set format_literals"
  shows "run_pipeline cd req s =
    (Inr (pipeline_result req
            (case fst (cd ''videojob'' (pipeline_job req) s) of Inl e \<Rightarrow> None | Inr i \<Rightarrow> Some i)),
     pipeline_calls req
       @ [CreateDocumentCalled ''videojob'' (pipeline_job req) (fst (cd ''videojob'' (pipeline_job req) s))],
     snd (cd ''videojob'' (pipeline_job req) s))"
  using assms by (simp add: run_pipeline_unfold VideoJob_init_def pipeline_job_errors)

lemma in_pipeline_calls: "CreateDocumentCalled k j out \<notin> set (pipeline_calls req)"
  by (simp add: pipeline_calls_def)

lemma sublist_make_script: "sublist X (make_script X)"
  unfolding make_script_def sublist_def by (rule exI [of _ "''Title: ''"]) auto

text \<open>
  C2. \<open>run_pipeline\<close> fails with an HTTP 400 exactly when the trimmed trigger phrase
  differs from the canonical phrase; on such a mismatch the failure is
  \<open>HTTPException(400, "Invalid trigger phrase")\<close>, no action stub and no store insert
  has been called, and the store is as it was. This holds for every store.
\<close>

theorem run_pipeline_invalid_trigger_iff:
  "((\<exists>detail. fst (run_pipeline cd req s) = Inl (HTTPException 400 detail))
      \<longleftrightarrow> strip (req_trigger_phrase req) \<noteq> ''Create a full video automatically.'')
   \<and> (strip (req_trigger_phrase req) \<noteq> ''Create a full video automatically.''
      \<longrightarrow> run_pipeline cd req s = (Inl (HTTPException 400 ''Invalid trigger phrase''), [], s))"
proof (cases "strip (req_trigger_phrase req) = ''Create a full video automatically.''")
  case False
  then show ?thesis by (simp add: run_pipeline_bad_trigger)
next
  case True
  then show ?thesis
    by (cases "req_format req \<in> set format_literals")
       (simp_all add: run_pipeline_bad_format run_pipeline_valid)
qed

theorem run_pipeline_invalid_trigger_iff_witness:
  "run_pipeline create_document (RunRequest_defaults \<lparr> req_trigger_phrase := ''wrong'' \<rparr>) empty_store
     = (Inl (HTTPException 400 ''Invalid trigger phrase''), [], empty_store)"
proof -
  have h: "strip (req_trigger_phrase (RunRequest_defaults \<lparr> req_trigger_phrase := ''wrong'' \<rparr>))
             \<noteq> ''Create a full video automatically.''"
    by (simp add: strip_def isspace_def)
  from run_pipeline_invalid_trigger_iff
         [of create_document "RunRequest_defaults \<lparr> req_trigger_phrase := ''wrong'' \<rparr>" empty_store] h
  show ?thesis by blast
qed

text \<open>
  C1. For a request whose trimmed trigger phrase is the canonical one: if the insert at
  the end of \<open>run_pipeline\<close> raised (the run recorded an insert with an exception as
  outcome), the handler still returns a result with \<open>job_id\<close> \<open>None\<close> and the
  generated script, voiceover URL, b-roll URLs and final URL. Moreover a failure of
  \<open>run_pipeline\<close> never depends on the store: whatever fails with one store, in one
  state, fails the same way with any other.
\<close>

theorem run_pipeline_store_failure_suppressed:
  "(strip (req_trigger_phrase req) = ''Create a full video automatically.''
      \<and> run_pipeline cd req s = (resp, evs, s')
      \<and> CreateDocumentCalled k j (Inl e) \<in> set evs
    \<longrightarrow> (\<exists>r. resp = Inr r \<and> job_id r = None
             \<and> res_script r = make_script (py_or (req_topic req) default_topic)
             \<and> res_voiceover_url r = ''https://example.com/voiceover.mp3''
             \<and> res_broll_urls r = [''https://example.com/broll_1.mp4'',
                                    ''https://example.com/broll_2.mp4'',
                                    ''https://example.com/broll_3.mp4'']
             \<and> res_final_url r = ''https://example.com/final_video.mp4''))
   \<and> (\<forall>f. fst (run_pipeline cd req s) = Inl f \<longrightarrow> fst (run_pipeline cd0 req s0) = Inl f)"
proof (cases "strip (req_trigger_phrase req) = ''Create a full video automatically.''")
  case False
  then show ?thesis by (simp add: run_pipeline_bad_trigger)
next
  case True
  show ?thesis
  proof (cases "req_format req \<in> set format_literals")
    case False
    with True show ?thesis by (auto simp add: run_pipeline_bad_format in_pipeline_calls)
  next
    case fmt: True
    have "job_id (pipeline_result req
            (case fst (cd ''videojob'' (pipeline_job req) s) of Inl e \<Rightarrow> None | Inr i \<Rightarrow> Some i)) = None"
      if "fst (cd ''videojob'' (pipeline_job req) s) = Inl e"
      using that by (simp add: pipeline_result_def)
    then show ?thesis
      using True fmt
      by (auto simp add: run_pipeline_valid in_pipeline_calls pipeline_result_def split: sum.splits)
  qed
qed

theorem run_pipeline_store_failure_suppressed_witness:
  "(\<exists>j. CreateDocumentCalled ''videojob'' j (Inl (Exception ''StoreUnavailable''))
          \<in> set (fst (snd (run_pipeline create_document RunRequest_defaults
                              (empty_store \<lparr> connected := False \<rparr>)))))
   \<and> (\<exists>r. fst (run_pipeline create_document RunRequest_defaults (empty_store \<lparr> connected := False \<rparr>)) = Inr r
          \<and> job_id r = None
          \<and> res_script r = make_script default_topic
          \<and> res_voiceover_url r = ''https://example.com/voiceover.mp3''
          \<and> res_broll_urls r = [''https://example.com/broll_1.mp4'',
                                 ''https://example.com/broll_2.mp4'',
                                 ''https://example.com/broll_3.mp4'']
          \<and> res_final_url r = ''https://example.com/final_video.mp4'')"
proof -
  let ?s = "empty_store \<lparr> connected := False \<rparr>"
  let ?job = "pipeline_job RunRequest_defaults"
  let ?ev = "CreateDocumentCalled ''videojob'' ?job (Inl (Exception ''StoreUnavailable''))"
  have t: "strip (req_trigger_phrase RunRequest_defaults) = ''Create a full video automatically.''"
    by (simp add: RunRequest_defaults_def strip_canonical)
  have f: "req_format RunRequest_defaults \<in> set format_literals"
    by (simp add: RunRequest_defaults_def format_literals_def)
  have p: "py_or (req_topic RunRequest_defaults) default_topic = default_topic"
    by (simp add: RunRequest_defaults_def py_or_def)
  have out: "create_document ''videojob'' ?job ?s = (Inl (Exception ''StoreUnavailable''), ?s)"
    by (simp add: create_document_def empty_store_def)
  obtain resp evs s' where
    run: "run_pipeline create_document RunRequest_defaults ?s = (resp, evs, s')"
    by (metis prod_cases3)
  from run have evs: "evs = pipeline_calls RunRequest_defaults @ [?ev]"
    by (simp add: run_pipeline_valid [OF t f] out)
  then have ev: "?ev \<in> set evs" by simp
  note main = run_pipeline_store_failure_suppressed
         [of RunRequest_defaults create_document ?s resp evs s' "''videojob''" ?job
             "Exception ''StoreUnavailable''", THEN conjunct1, rule_format,
          OF conjI [OF t conjI [OF run ev]]]
  show ?thesis
    unfolding run fst_conv snd_conv
  proof (intro conjI)
    show "\<exists>j. CreateDocumentCalled ''videojob'' j (Inl (Exception ''StoreUnavailable'')) \<in> set evs"
      by (rule exI [where x = "pipeline_job RunRequest_defaults"]) (rule ev)
    show "\<exists>r. resp = Inr r \<and> job_id r = None \<and> res_script r = make_script default_topic
          \<and> res_voiceover_url r = ''https://example.com/voiceover.mp3''
          \<and> res_broll_urls r = [''https://example.com/broll_1.mp4'',
                                 ''https://example.com/broll_2.mp4'',
                                 ''https://example.com/broll_3.mp4'']
          \<and> res_final_url r = ''https://example.com/final_video.mp4''"
      using main unfolding p .
  qed
qed

end
